theory Spec2Isabelle
  imports Main
begin

section \<open>JavaScript values\<close>

text \<open>
  The values a caller hands to the client: options objects, callbacks, API keys, and the
  error object the HTTP transport reports. Strings are their UTF-8 byte sequences. A Number
  is represented by its canonical decimal rendering (what \<open>'' + v\<close> yields), which is
  all this program ever observes of a number besides its truthiness and finiteness. An
  object is represented by its own enumerable string-keyed properties, in the order
  \<open>Object.keys\<close> enumerates them. A function is an identifier; what happens when it is
  called is given separately.
\<close>

datatype jsval =
    Undefined
  | Null
  | Bool bool
  | Num string
  | Str string
  | Arr "jsval list"
  | Obj "(string \<times> jsval) list"
  | Fun nat

text \<open>The \<open>typeof\<close> operator.\<close>

fun typeof :: "jsval \<Rightarrow> string" where
  "typeof Undefined = ''undefined''"
| "typeof Null = ''object''"
| "typeof (Bool b) = ''boolean''"
| "typeof (Num n) = ''number''"
| "typeof (Str s) = ''string''"
| "typeof (Arr xs) = ''object''"
| "typeof (Obj ps) = ''object''"
| "typeof (Fun f) = ''function''"

text \<open>ToBoolean, as applied by \<open>if (v)\<close> and \<open>!v\<close>.\<close>

fun truthy :: "jsval \<Rightarrow> bool" where
  "truthy Undefined = False"
| "truthy Null = False"
| "truthy (Bool b) = b"
| "truthy (Num n) = (n \<noteq> ''0'' \<and> n \<noteq> ''NaN'')"
| "truthy (Str s) = (s \<noteq> [])"
| "truthy (Arr xs) = True"
| "truthy (Obj ps) = True"
| "truthy (Fun f) = True"

text \<open>\<open>args[i]\<close> on the rest-parameter array: reading past the end yields \<open>undefined\<close>.\<close>

definition arg_at :: "jsval list \<Rightarrow> nat \<Rightarrow> jsval" where
  "arg_at args i = (if i < length args then args ! i else Undefined)"

section \<open>Argument normalizer\<close>

record split_args =
  options :: jsval
  cb :: jsval

definition splitArgsIntoOptionsAndCallback :: "jsval list \<Rightarrow> split_args" where
  "splitArgsIntoOptionsAndCallback args =
     (if length args > 1 then \<lparr>options = arg_at args 0, cb = arg_at args 1\<rparr>
      else if ''object'' = typeof (arg_at args 0) then \<lparr>options = arg_at args 0, cb = Undefined\<rparr>
      else if ''function'' = typeof (arg_at args 0) then \<lparr>options = Undefined, cb = arg_at args 0\<rparr>
      else \<lparr>options = Undefined, cb = Undefined\<rparr>)"

text \<open>The two kinds of argument the documented call shapes speak of.\<close>

fun is_mapping :: "jsval \<Rightarrow> bool" where
  "is_mapping (Obj ps) = True"
| "is_mapping v = False"

fun is_invocable :: "jsval \<Rightarrow> bool" where
  "is_invocable (Fun f) = True"
| "is_invocable v = False"

section \<open>Query strings\<close>

text \<open>
  The platform's \<open>querystring.stringify\<close>, called by the client with the default
  separator \<open>&\<close>, assignment \<open>=\<close> and escape function. The escape leaves the
  characters \<open>A-Z a-z 0-9 - _ . ! ~ * ' ( )\<close> alone and writes every other byte of the
  UTF-8 encoding as \<open>%XX\<close> with upper-case hexadecimal digits.
\<close>

definition unreserved :: "char \<Rightarrow> bool" where
  "unreserved c =
     (let n = (of_char c :: nat) in
        (48 \<le> n \<and> n \<le> 57) \<or> (65 \<le> n \<and> n \<le> 90) \<or> (97 \<le> n \<and> n \<le> 122)
        \<or> n = 33 \<or> n = 39 \<or> n = 40 \<or> n = 41 \<or> n = 42 \<or> n = 45 \<or> n = 46
        \<or> n = 95 \<or> n = 126)"

definition hex_digit :: "nat \<Rightarrow> char" where
  "hex_digit n = ''0123456789ABCDEF'' ! (n mod 16)"

definition escape_char :: "char \<Rightarrow> string" where
  "escape_char c =
     (if unreserved c then [c]
      else [CHR ''%'', hex_digit ((of_char c :: nat) div 16), hex_digit ((of_char c :: nat) mod 16)])"

definition qs_escape :: "string \<Rightarrow> string" where
  "qs_escape s = concat (map escape_char s)"

definition num_is_finite :: "string \<Rightarrow> bool" where
  "num_is_finite n = (n \<noteq> ''NaN'' \<and> n \<noteq> ''Infinity'' \<and> n \<noteq> ''-Infinity'')"

text \<open>Only strings, finite numbers and booleans have a rendering; everything else is empty.\<close>

fun stringifyPrimitive :: "jsval \<Rightarrow> string" where
  "stringifyPrimitive (Str s) = s"
| "stringifyPrimitive (Num n) = (if num_is_finite n then n else [])"
| "stringifyPrimitive (Bool b) = (if b then ''true'' else ''false'')"
| "stringifyPrimitive v = []"

text \<open>Joining with a separator, as \<open>Array.prototype.join\<close> does on strings.\<close>

fun join :: "string \<Rightarrow> string list \<Rightarrow> string" where
  "join sep [] = []"
| "join sep [x] = x"
| "join sep (x # y # ys) = x @ sep @ join sep (y # ys)"

text \<open>
  The fields one property contributes: one \<open>key=value\<close> field, or for an array value one
  field per element with the key repeated (none at all for an empty array).
\<close>

fun qs_fields :: "string \<times> jsval \<Rightarrow> string list" where
  "qs_fields (k, Arr vs) = map (\<lambda>v. qs_escape k @ ''='' @ qs_escape (stringifyPrimitive v)) vs"
| "qs_fields (k, v) = [qs_escape k @ ''='' @ qs_escape (stringifyPrimitive v)]"

text \<open>Decimal rendering of an array index, for the keys of an array.\<close>

fun decimal :: "nat \<Rightarrow> string" where
  "decimal n =
     (if n < 10 then [hex_digit n] else decimal (n div 10) @ [hex_digit (n mod 10)])"

text \<open>\<open>Object.keys\<close> with the values: an array's keys are its indices.\<close>

fun own_entries :: "jsval \<Rightarrow> (string \<times> jsval) list" where
  "own_entries (Obj ps) = ps"
| "own_entries (Arr xs) = zip (map decimal [0 ..< length xs]) xs"
| "own_entries v = []"

definition qs_stringify :: "jsval \<Rightarrow> string" where
  "qs_stringify obj =
     (if obj \<noteq> Null \<and> typeof obj = ''object''
      then join ''&'' (concat (map qs_fields (own_entries obj)))
      else [])"

section \<open>URL builder\<close>

definition host :: string where
  "host = ''https://newsapi.org''"

definition createUrlFromEndpointAndOptions :: "string \<Rightarrow> jsval \<Rightarrow> string" where
  "createUrlFromEndpointAndOptions endpoint opts =
     (let query = qs_stringify opts;
          baseURL = host @ endpoint
      in if query \<noteq> [] then baseURL @ ''?'' @ query else baseURL)"

section \<open>Parsed responses and delivered values\<close>

text \<open>
  What \<open>JSON.parse\<close> returns: null, booleans, numbers (by their canonical rendering),
  strings, arrays and objects whose properties are again such values. An object is the
  list of its own properties; a property read takes the first binding of the key.
\<close>

datatype json =
    JNull
  | JBool bool
  | JNum string
  | JStr string
  | JArr "json list"
  | JObj "(string \<times> json) list"

text \<open>
  Everything that can be thrown, passed to the callback, or used to settle the promise:
  a value from outside (the transport's error object, \<open>null\<close>, whatever a callback
  throws), the parsed response, the client's own error with its \<open>name\<close> and
  \<open>message\<close> (\<open>None\<close> is \<open>undefined\<close>), and the errors the language itself raises.
\<close>

datatype payload =
    Plain jsval
  | Parsed json
  | NewsAPIError string "json option"
  | TypeError
  | SyntaxError

text \<open>
  Reading \<open>data.status\<close>, \<open>data.code\<close> or \<open>data.message\<close>: a TypeError on
  \<open>null\<close>, the own property of an object (\<open>undefined\<close> when absent), and
  \<open>undefined\<close> on every other value, since no prototype defines these three names.
\<close>

fun get_prop :: "json \<Rightarrow> string \<Rightarrow> payload + json option" where
  "get_prop JNull k = Inl TypeError"
| "get_prop (JObj ps) k = Inr (map_of ps k)"
| "get_prop v k = Inr None"

text \<open>
  ToString, as a template literal applies it. An array joins its elements with commas,
  \<open>null\<close> elements counting as empty. A plain object renders as \<open>[object Object]\<close>
  through the inherited \<open>toString\<close>; when the object has an own \<open>toString\<close> property
  (which, coming from JSON, is never callable) the conversion finds neither a callable
  \<open>toString\<close> nor a \<open>valueOf\<close> returning a primitive, and raises a TypeError
  (\<open>None\<close>).
\<close>

fun to_string :: "json \<Rightarrow> string option"
  and elements_to_strings :: "json list \<Rightarrow> string list option" where
  "to_string JNull = Some ''null''"
| "to_string (JBool b) = Some (if b then ''true'' else ''false'')"
| "to_string (JNum n) = Some n"
| "to_string (JStr s) = Some s"
| "to_string (JArr xs) = map_option (join '','') (elements_to_strings xs)"
| "to_string (JObj ps) =
     (if map_of ps ''toString'' = None then Some ''[object Object]'' else None)"
| "elements_to_strings [] = Some []"
| "elements_to_strings (x # xs) =
     (case (if x = JNull then Some [] else to_string x) of
        None \<Rightarrow> None
      | Some s \<Rightarrow> (case elements_to_strings xs of None \<Rightarrow> None | Some ss \<Rightarrow> Some (s # ss)))"

text \<open>The interpolation \<open>${err.code}\<close>; an absent code is \<open>undefined\<close>.\<close>

definition interpolate :: "json option \<Rightarrow> string option" where
  "interpolate c = (case c of None \<Rightarrow> Some ''undefined'' | Some v \<Rightarrow> to_string v)"

text \<open>
  \<open>new NewsAPIError(err)\<close>: \<open>Inr\<close> the constructed error, \<open>Inl\<close> what the
  constructor throws instead.
\<close>

definition new_NewsAPIError :: "json \<Rightarrow> payload + payload" where
  "new_NewsAPIError err =
     (case get_prop err ''code'' of
        Inl e \<Rightarrow> Inl e
      | Inr c \<Rightarrow>
          (case interpolate c of
             None \<Rightarrow> Inl TypeError
           | Some s \<Rightarrow>
               (case get_prop err ''message'' of
                  Inl e \<Rightarrow> Inl e
                | Inr m \<Rightarrow> Inr (NewsAPIError (''NewsAPIError: '' @ s) m))))"

section \<open>Request dispatcher\<close>

text \<open>
  What a run of the request callback does that can be seen from outside: the calls of the
  completion callback with their arguments and the calls of \<open>resolve\<close> and \<open>reject\<close>,
  in order, and the exception that leaves the request callback uncaught, if any.
\<close>

datatype event = Callback "payload list" | Resolve payload | Reject payload

record effects =
  events :: "event list"
  escaped :: "payload option"

text \<open>
  The environment: \<open>JSON.parse\<close> (\<open>Inl\<close> what it throws) and the behaviour of the
  functions a caller may pass, by identifier: \<open>call f args\<close> is \<open>Some e\<close> when
  calling \<open>f\<close> with \<open>args\<close> throws \<open>e\<close>, and \<open>None\<close> when it returns.
\<close>

type_synonym parser = "string \<Rightarrow> payload + json"
type_synonym calls = "nat \<Rightarrow> payload list \<Rightarrow> payload option"

text \<open>\<open>cb(...)\<close>; calling what is not a function raises a TypeError without any call.\<close>

definition invoke :: "calls \<Rightarrow> jsval \<Rightarrow> payload list \<Rightarrow> effects" where
  "invoke call callback args =
     (case callback of
        Fun f \<Rightarrow> \<lparr>events = [Callback args], escaped = call f args\<rparr>
      | _ \<Rightarrow> \<lparr>events = [], escaped = Some TypeError\<rparr>)"

definition throw :: "payload \<Rightarrow> effects" where
  "throw e = \<lparr>events = [], escaped = Some e\<rparr>"

definition settle :: "event \<Rightarrow> effects" where
  "settle ev = \<lparr>events = [ev], escaped = None\<rparr>"

text \<open>The body of the \<open>try\<close> block; \<open>escaped\<close> is what the \<open>catch\<close> receives.\<close>

definition try_block :: "parser \<Rightarrow> calls \<Rightarrow> bool \<Rightarrow> jsval \<Rightarrow> string \<Rightarrow> effects" where
  "try_block json_parse call useCallback callback body =
     (case json_parse body of
        Inl e \<Rightarrow> throw e
      | Inr data \<Rightarrow>
          (case get_prop data ''status'' of
             Inl e \<Rightarrow> throw e
           | Inr status \<Rightarrow>
               if status = Some (JStr ''error'')
               then (case new_NewsAPIError data of Inl e \<Rightarrow> throw e | Inr e \<Rightarrow> throw e)
               else if useCallback then invoke call callback [Plain Null, Parsed data]
               else settle (Resolve (Parsed data))))"

text \<open>
  The function handed to \<open>request.get\<close>, run when the transport completes with
  \<open>(err, res, body)\<close>; \<open>res\<close> is not used.
\<close>

definition request_callback ::
  "parser \<Rightarrow> calls \<Rightarrow> bool \<Rightarrow> jsval \<Rightarrow> jsval \<Rightarrow> string \<Rightarrow> effects" where
  "request_callback json_parse call useCallback callback err body =
     (if truthy err
      then (if useCallback then invoke call callback [Plain err] else settle (Reject (Plain err)))
      else
        (let t = try_block json_parse call useCallback callback body in
         case escaped t of
           None \<Rightarrow> t
         | Some e \<Rightarrow>
             (let h = (if useCallback then invoke call callback [e] else settle (Reject e))
              in \<lparr>events = events t @ events h, escaped = escaped h\<rparr>)))"

record request_options =
  url :: string
  headers :: "(string \<times> jsval) list option"

record dispatch =
  request :: request_options
  completion :: effects

text \<open>
  One dispatch: the options given to \<open>request.get\<close>, and what the request callback
  does once the transport has completed with \<open>err\<close> and \<open>body\<close>. The transport runs
  the request callback once, after \<open>getDataFromWeb\<close> has returned the promise.
\<close>

definition getDataFromWeb ::
  "parser \<Rightarrow> calls \<Rightarrow> string \<Rightarrow> jsval \<Rightarrow> jsval \<Rightarrow> jsval \<Rightarrow> string \<Rightarrow> dispatch" where
  "getDataFromWeb json_parse call u apiKey callback err body =
     (let useCallback = (''function'' = typeof callback);
          opts = \<lparr>url = u,
                  headers = (if truthy apiKey then Some [(''X-Api-Key'', apiKey)] else None)\<rparr>
      in \<lparr>request = opts,
          completion = request_callback json_parse call useCallback callback err body\<rparr>)"

text \<open>The state of the returned promise: the first \<open>resolve\<close> or \<open>reject\<close> settles it.\<close>

datatype promise_state = Pending | Fulfilled payload | Rejected payload

fun promise_of :: "event list \<Rightarrow> promise_state" where
  "promise_of [] = Pending"
| "promise_of (Resolve v # es) = Fulfilled v"
| "promise_of (Reject e # es) = Rejected e"
| "promise_of (Callback args # es) = promise_of es"

section \<open>The client\<close>

text \<open>
  The credential lives in a variable of the module, not in the instance: an instance has
  no fields besides the \<open>v2\<close> methods, which read the module's variable when called.
\<close>

record module_state =
  API_KEY :: jsval

definition initial_module :: module_state where
  "initial_module = \<lparr>API_KEY = Undefined\<rparr>"

datatype client = Client

definition NewsAPI_constructor :: "jsval \<Rightarrow> module_state \<Rightarrow> string + (module_state \<times> client)" where
  "NewsAPI_constructor apiKey st =
     (if \<not> truthy apiKey then Inl ''No API key specified''
      else Inr (st\<lparr>API_KEY := apiKey\<rparr>, Client))"

definition v2_topHeadlines ::
  "parser \<Rightarrow> calls \<Rightarrow> module_state \<Rightarrow> client \<Rightarrow> jsval list \<Rightarrow> jsval \<Rightarrow> string \<Rightarrow> dispatch" where
  "v2_topHeadlines json_parse call st self args err body =
     (let sp = splitArgsIntoOptionsAndCallback args;
          opts = (if options sp = Undefined then Obj [(''language'', Str ''en'')] else options sp);
          u = createUrlFromEndpointAndOptions ''/v2/top-headlines'' opts
      in getDataFromWeb json_parse call u (API_KEY st) (cb sp) err body)"

definition v2_everything ::
  "parser \<Rightarrow> calls \<Rightarrow> module_state \<Rightarrow> client \<Rightarrow> jsval list \<Rightarrow> jsval \<Rightarrow> string \<Rightarrow> dispatch" where
  "v2_everything json_parse call st self args err body =
     (let sp = splitArgsIntoOptionsAndCallback args;
          u = createUrlFromEndpointAndOptions ''/v2/everything'' (options sp)
      in getDataFromWeb json_parse call u (API_KEY st) (cb sp) err body)"

definition v2_sources ::
  "parser \<Rightarrow> calls \<Rightarrow> module_state \<Rightarrow> client \<Rightarrow> jsval list \<Rightarrow> jsval \<Rightarrow> string \<Rightarrow> dispatch" where
  "v2_sources json_parse call st self args err body =
     (let sp = splitArgsIntoOptionsAndCallback args;
          u = createUrlFromEndpointAndOptions ''/v2/sources'' (options sp)
      in getDataFromWeb json_parse call u (API_KEY st) (cb sp) err body)"

definition sources ::
  "parser \<Rightarrow> calls \<Rightarrow> module_state \<Rightarrow> client \<Rightarrow> jsval list \<Rightarrow> jsval \<Rightarrow> string \<Rightarrow> dispatch" where
  "sources json_parse call st self args err body =
     (let sp = splitArgsIntoOptionsAndCallback args;
          u = createUrlFromEndpointAndOptions ''/v1/sources'' (options sp)
      in getDataFromWeb json_parse call u Null (cb sp) err body)"

definition articles ::
  "parser \<Rightarrow> calls \<Rightarrow> module_state \<Rightarrow> client \<Rightarrow> jsval list \<Rightarrow> jsval \<Rightarrow> string \<Rightarrow> dispatch" where
  "articles json_parse call st self args err body =
     (let sp = splitArgsIntoOptionsAndCallback args;
          u = createUrlFromEndpointAndOptions ''/v1/articles'' (options sp)
      in getDataFromWeb json_parse call u (API_KEY st) (cb sp) err body)"

section \<open>Sample environments\<close>

text \<open>
  A parser that knows a finite table of bodies and throws a SyntaxError on every other
  body, and three callbacks: one that always returns, one that throws when it is handed a
  result, and one that always throws.
\<close>

definition table_parse :: "(string \<times> json) list \<Rightarrow> parser" where
  "table_parse tbl body = (case map_of tbl body of None \<Rightarrow> Inl SyntaxError | Some d \<Rightarrow> Inr d)"

definition returns :: calls where
  "returns f args = None"

definition throws_on_result :: calls where
  "throws_on_result f args =
     (case args of [Plain Null, Parsed d] \<Rightarrow> Some (Plain (Str ''boom'')) | _ \<Rightarrow> None)"

definition ok_body :: string where
  \<open>ok_body = ''{"status":"ok","totalResults":1,"articles":[]}''\<close>

definition ok_data :: json where
  "ok_data = JObj [(''status'', JStr ''ok''), (''totalResults'', JNum ''1''), (''articles'', JArr [])]"

definition error_body :: string where
  \<open>error_body = ''{"status":"error","code":"apiKeyInvalid","message":"bad key"}''\<close>

definition error_data :: json where
  "error_data =
     JObj [(''status'', JStr ''error''), (''code'', JStr ''apiKeyInvalid''),
           (''message'', JStr ''bad key'')]"

definition odd_body :: string where
  \<open>odd_body = ''{"status":"error","code":{"toString":null},"message":"bad key"}''\<close>

definition odd_data :: json where
  "odd_data =
     JObj [(''status'', JStr ''error''), (''code'', JObj [(''toString'', JNull)]),
           (''message'', JStr ''bad key'')]"

definition sample_parse :: parser where
  "sample_parse = table_parse [(ok_body, ok_data), (error_body, error_data), (odd_body, odd_data)]"

definition sample_module :: module_state where
  "sample_module = \<lparr>API_KEY = Str ''k1''\<rparr>"

section \<open>Notions used to state the properties\<close>

fun is_array :: "jsval \<Rightarrow> bool" where
  "is_array (Arr xs) = True"
| "is_array v = False"

text \<open>
  How an error reaches the caller of a dispatch: as the only argument of the completion
  callback when one was given, by rejecting the promise otherwise.
\<close>

definition error_delivery :: "jsval \<Rightarrow> payload \<Rightarrow> event" where
  "error_delivery callback e = (if ''function'' = typeof callback then Callback [e] else Reject e)"

text \<open>
  A call of the completion callback in the \<open>(error, data)\<close> convention: the error
  alone, or \<open>null\<close> followed by the parsed response.
\<close>

fun error_data_style :: "event \<Rightarrow> bool" where
  "error_data_style (Callback [e]) = True"
| "error_data_style (Callback [Plain Null, Parsed d]) = True"
| "error_data_style ev = False"

section \<open>Basic facts\<close>

lemmas sample_bodies = ok_body_def error_body_def odd_body_def
lemmas sample_parse_simps = sample_parse_def table_parse_def sample_bodies
lemmas dispatch_defs = getDataFromWeb_def request_callback_def try_block_def invoke_def
  throw_def settle_def new_NewsAPIError_def interpolate_def Let_def
lemmas facade_defs = v2_topHeadlines_def v2_everything_def v2_sources_def sources_def articles_def

lemma typeof_function: "(''function'' = typeof v) = is_invocable v"
  by (cases v) auto

lemma typeof_object: "(''object'' = typeof v) = (v = Null \<or> is_array v \<or> is_mapping v)"
  by (cases v) auto

lemma invoke_Fun: "invoke call (Fun f) args = \<lparr>events = [Callback args], escaped = call f args\<rparr>"
  by (simp add: invoke_def)

lemma completion_getDataFromWeb:
  "completion (getDataFromWeb json_parse call u apiKey callback err body) =
   request_callback json_parse call (is_invocable callback) callback err body"
  by (simp add: getDataFromWeb_def Let_def typeof_function)

lemma request_getDataFromWeb:
  "request (getDataFromWeb json_parse call u apiKey callback err body) =
   \<lparr>url = u, headers = (if truthy apiKey then Some [(''X-Api-Key'', apiKey)] else None)\<rparr>"
  by (simp add: getDataFromWeb_def Let_def)

section \<open>The argument normalizer\<close>

text \<open>
  C5, amended. For every argument list of length 0 to 2 the normalizer returns:
  (first, second) when two arguments are given; (argument, undefined) when the single
  argument has \<open>typeof\<close> \<open>object\<close>, which a mapping has, and so have an array and
  \<open>null\<close>; (undefined, argument) when the single argument is invocable; and (undefined,
  undefined) when no argument is given or the single argument is neither of type
  \<open>object\<close> nor invocable.
\<close>

theorem splitArgs_shapes:
  "splitArgsIntoOptionsAndCallback [] = \<lparr>options = Undefined, cb = Undefined\<rparr>
   \<and> splitArgsIntoOptionsAndCallback [a, b] = \<lparr>options = a, cb = b\<rparr>
   \<and> (typeof a = ''object'' \<longrightarrow>
        splitArgsIntoOptionsAndCallback [a] = \<lparr>options = a, cb = Undefined\<rparr>)
   \<and> (is_mapping a \<longrightarrow> splitArgsIntoOptionsAndCallback [a] = \<lparr>options = a, cb = Undefined\<rparr>)
   \<and> (is_invocable a \<longrightarrow> splitArgsIntoOptionsAndCallback [a] = \<lparr>options = Undefined, cb = a\<rparr>)
   \<and> (typeof a \<noteq> ''object'' \<and> \<not> is_invocable a \<longrightarrow>
        splitArgsIntoOptionsAndCallback [a] = \<lparr>options = Undefined, cb = Undefined\<rparr>)"
  by (cases a) (simp_all add: splitArgsIntoOptionsAndCallback_def arg_at_def)

theorem splitArgs_shapes_witness:
  "splitArgsIntoOptionsAndCallback [Obj [(''q'', Str ''tesla'')]] =
     \<lparr>options = Obj [(''q'', Str ''tesla'')], cb = Undefined\<rparr>
   \<and> splitArgsIntoOptionsAndCallback [Fun 0] = \<lparr>options = Undefined, cb = Fun 0\<rparr>
   \<and> splitArgsIntoOptionsAndCallback [Str ''q''] = \<lparr>options = Undefined, cb = Undefined\<rparr>
   \<and> splitArgsIntoOptionsAndCallback [Arr []] = \<lparr>options = Arr [], cb = Undefined\<rparr>"
  using splitArgs_shapes [of "Obj [(''q'', Str ''tesla'')]" Undefined]
    splitArgs_shapes [of "Fun 0" Undefined] splitArgs_shapes [of "Str ''q''" Undefined]
    splitArgs_shapes [of "Arr []" Undefined]
  by simp

text \<open>
  C5 as stated fails on the single argument \<open>null\<close>: it is neither a mapping nor
  invocable, yet it comes back as the options.
\<close>

theorem splitArgs_null_counterexample:
  "length [Null] \<le> 2 \<and> \<not> is_mapping Null \<and> \<not> is_invocable Null
   \<and> splitArgsIntoOptionsAndCallback [Null] = \<lparr>options = Null, cb = Undefined\<rparr>
   \<and> splitArgsIntoOptionsAndCallback [Null] \<noteq> \<lparr>options = Undefined, cb = Undefined\<rparr>"
  by (simp add: splitArgsIntoOptionsAndCallback_def arg_at_def)

section \<open>The URL builder\<close>











text \<open>
  C7. Calling \<open>topHeadlines\<close> with no arguments, or with a callback alone, requests
  the top-headlines URL with the query string \<open>language=en\<close>.
\<close>

theorem topHeadlines_default_language:
  "args = [] \<or> args = [Fun f] \<Longrightarrow>
   url (request (v2_topHeadlines json_parse call st self args err body)) =
     ''https://newsapi.org/v2/top-headlines?language=en''"
  by (auto simp: v2_topHeadlines_def splitArgsIntoOptionsAndCallback_def arg_at_def
      getDataFromWeb_def createUrlFromEndpointAndOptions_def qs_stringify_def host_def
      qs_escape_def escape_char_def unreserved_def Let_def)

theorem topHeadlines_default_language_witness:
  "url (request (v2_topHeadlines sample_parse returns sample_module Client [] Null ok_body)) =
     ''https://newsapi.org/v2/top-headlines?language=en''
   \<and> url (request (v2_topHeadlines sample_parse returns sample_module Client [Fun 0] Null ok_body)) =
     ''https://newsapi.org/v2/top-headlines?language=en''"
  using topHeadlines_default_language [of "[]" 0 sample_parse returns sample_module Client Null ok_body]
    topHeadlines_default_language [of "[Fun 0]" 0 sample_parse returns sample_module Client Null ok_body]
  by simp

section \<open>The dispatcher in callback mode\<close>

lemma callback_mode_events:
  "events (request_callback json_parse call True (Fun f) err body) \<noteq> []
   \<and> (\<forall>ev \<in> set (events (request_callback json_parse call True (Fun f) err body)).
         error_data_style ev)"
  by (auto simp: request_callback_def try_block_def invoke_Fun throw_def Let_def
      split: sum.splits option.splits)

lemma promise_of_callbacks: "\<forall>ev \<in> set es. error_data_style ev \<Longrightarrow> promise_of es = Pending"
proof (induction es)
  case Nil
  then show ?case by simp
next
  case (Cons ev es)
  then show ?case by (cases ev) auto
qed



lemma callback_mode_pending:
  assumes "is_invocable callback"
  shows "promise_of (events (completion (getDataFromWeb json_parse call u apiKey callback err body)))
      = Pending
    \<and> (\<exists>args. Callback args \<in>
          set (events (completion (getDataFromWeb json_parse call u apiKey callback err body))))"
proof -
  from assms obtain f where f: "callback = Fun f"
    by (cases callback) auto
  let ?es = "events (request_callback json_parse call True (Fun f) err body)"
  from callback_mode_events [of json_parse call f err body]
  have ne: "?es \<noteq> []" and all: "\<forall>ev \<in> set ?es. error_data_style ev"
    by simp_all
  from ne obtain ev where ev: "ev \<in> set ?es"
    by (cases ?es) auto
  with all have "error_data_style ev" by simp
  then obtain args where "ev = Callback args"
    by (cases ev) auto
  with ev all show ?thesis
    by (auto simp: completion_getDataFromWeb f promise_of_callbacks)
qed

text \<open>
  C1, amended. For every method of the client called with a callback, the promise the
  method returns never settles: it stays pending while the outcome goes to the callback.
\<close>

theorem facade_callback_promise_pending:
  assumes "is_invocable (cb (splitArgsIntoOptionsAndCallback args))"
  shows "promise_of (events (completion (v2_topHeadlines json_parse call st self args err body))) = Pending
    \<and> promise_of (events (completion (v2_everything json_parse call st self args err body))) = Pending
    \<and> promise_of (events (completion (v2_sources json_parse call st self args err body))) = Pending
    \<and> promise_of (events (completion (sources json_parse call st self args err body))) = Pending
    \<and> promise_of (events (completion (articles json_parse call st self args err body))) = Pending
    \<and> (\<exists>xs. Callback xs \<in> set (events (completion (v2_topHeadlines json_parse call st self args err body))))
    \<and> (\<exists>xs. Callback xs \<in> set (events (completion (v2_everything json_parse call st self args err body))))
    \<and> (\<exists>xs. Callback xs \<in> set (events (completion (v2_sources json_parse call st self args err body))))
    \<and> (\<exists>xs. Callback xs \<in> set (events (completion (sources json_parse call st self args err body))))
    \<and> (\<exists>xs. Callback xs \<in> set (events (completion (articles json_parse call st self args err body))))"
  using callback_mode_pending [OF assms]
  by (simp add: facade_defs Let_def)

theorem facade_callback_promise_pending_witness:
  "is_invocable (cb (splitArgsIntoOptionsAndCallback [Obj [(''q'', Str ''tesla'')], Fun 0]))
   \<and> promise_of (events (completion (v2_everything sample_parse returns sample_module Client
        [Obj [(''q'', Str ''tesla'')], Fun 0] Null ok_body))) = Pending
   \<and> events (completion (v2_everything sample_parse returns sample_module Client
        [Obj [(''q'', Str ''tesla'')], Fun 0] Null ok_body)) = [Callback [Plain Null, Parsed ok_data]]"
  using facade_callback_promise_pending [of "[Obj [(''q'', Str ''tesla'')], Fun 0]"
      sample_parse returns sample_module Client Null ok_body]
  by (simp add: v2_everything_def splitArgsIntoOptionsAndCallback_def arg_at_def dispatch_defs
      sample_parse_simps ok_data_def returns_def)

text \<open>
  C1 as stated fails: the callback receives \<open>(null, data)\<close>, and the promise is not
  fulfilled with that data; it is still pending.
\<close>

theorem facade_callback_promise_counterexample:
  "is_invocable (cb (splitArgsIntoOptionsAndCallback [Fun 0]))
   \<and> events (completion (v2_everything sample_parse returns sample_module Client [Fun 0] Null ok_body))
       = [Callback [Plain Null, Parsed ok_data]]
   \<and> promise_of (events (completion
        (v2_everything sample_parse returns sample_module Client [Fun 0] Null ok_body)))
       \<noteq> Fulfilled (Parsed ok_data)
   \<and> promise_of (events (completion
        (v2_everything sample_parse returns sample_module Client [Fun 0] Null ok_body)))
       = Pending"
  by (simp add: v2_everything_def splitArgsIntoOptionsAndCallback_def arg_at_def dispatch_defs
      sample_parse_simps ok_data_def returns_def)

section \<open>How often an outcome is delivered\<close>

lemma promise_mode_settles_once:
  "\<not> is_invocable callback \<Longrightarrow>
   \<exists>v. events (completion (getDataFromWeb json_parse call u apiKey callback err body)) = [Resolve v]
     \<or> events (completion (getDataFromWeb json_parse call u apiKey callback err body)) = [Reject v]"
  by (auto simp: completion_getDataFromWeb request_callback_def try_block_def throw_def settle_def
      Let_def split: sum.splits option.splits)

lemma quiet_callback_called_once:
  "\<forall>args. call f args = None \<Longrightarrow>
   \<exists>args. events (completion (getDataFromWeb json_parse call u apiKey (Fun f) err body)) = [Callback args]"
  by (auto simp: completion_getDataFromWeb request_callback_def try_block_def throw_def invoke_Fun
      Let_def split: sum.splits option.splits)

text \<open>
  C3. The claim asks for exactly one call of the callback also when the callback throws.
  A callback that throws when it is handed the result is called a second time, with its
  own exception as the error: the call \<open>cb(null, data)\<close> sits inside the \<open>try\<close>
  block, so the \<open>catch\<close> clause receives what the callback threw and passes it to
  \<open>cb\<close> again.
\<close>

theorem throwing_callback_called_twice:
  "events (completion (getDataFromWeb sample_parse throws_on_result
      ''https://newsapi.org/v2/everything'' (Str ''k1'') (Fun 0) Null ok_body))
   = [Callback [Plain Null, Parsed ok_data], Callback [Plain (Str ''boom'')]]"
  by (simp add: dispatch_defs sample_parse_simps ok_data_def throws_on_result_def)

section \<open>Errors\<close>

text \<open>
  C4, amended. For every response body that parses as JSON with a \<open>status\<close> field equal
  to the string \<open>error\<close>, exactly one outcome is delivered and it is an error, never
  the result. When the envelope's \<open>code\<close> converts to a string, the error is the
  client's own error, named \<open>NewsAPIError: \<close> followed by that string, with the
  envelope's \<open>message\<close> field as its message, unchanged. When the conversion raises a
  TypeError (the code is, or holds in an array, an object with an own \<open>toString\<close>
  property), that TypeError is the error delivered.
\<close>

theorem error_envelope_delivery:
  assumes "\<not> truthy err" and "json_parse body = Inr (JObj ps)"
    and "map_of ps ''status'' = Some (JStr ''error'')"
  shows "events (completion (getDataFromWeb json_parse call u apiKey callback err body)) =
    [error_delivery callback
       (case interpolate (map_of ps ''code'') of
          Some s \<Rightarrow> NewsAPIError (''NewsAPIError: '' @ s) (map_of ps ''message'')
        | None \<Rightarrow> TypeError)]"
proof (cases callback)
  case (Fun f)
  with assms show ?thesis
    by (simp add: completion_getDataFromWeb request_callback_def try_block_def throw_def
        invoke_Fun new_NewsAPIError_def error_delivery_def Let_def split: option.splits)
qed (use assms in \<open>simp_all add: completion_getDataFromWeb request_callback_def try_block_def
        throw_def settle_def new_NewsAPIError_def error_delivery_def Let_def split: option.splits\<close>)

theorem error_envelope_delivery_witness:
  "\<not> truthy Null \<and> sample_parse error_body = Inr error_data
   \<and> events (completion (getDataFromWeb sample_parse returns ''https://newsapi.org/v2/sources''
        (Str ''k1'') Undefined Null error_body))
      = [Reject (NewsAPIError ''NewsAPIError: apiKeyInvalid'' (Some (JStr ''bad key'')))]"
  using error_envelope_delivery [of Null sample_parse error_body
      "[(''status'', JStr ''error''), (''code'', JStr ''apiKeyInvalid''), (''message'', JStr ''bad key'')]"
      returns "''https://newsapi.org/v2/sources''" "Str ''k1''" Undefined]
  by (simp add: sample_parse_simps error_data_def error_delivery_def interpolate_def)

text \<open>
  C4 as stated fails on an error envelope whose code is an object with an own
  \<open>toString\<close> property: the promise is rejected with a TypeError, not with the
  client's own error.
\<close>

theorem error_envelope_counterexample:
  "sample_parse odd_body = Inr odd_data
   \<and> get_prop odd_data ''status'' = Inr (Some (JStr ''error''))
   \<and> events (completion (getDataFromWeb sample_parse returns ''https://newsapi.org/v2/sources''
        (Str ''k1'') Undefined Null odd_body)) = [Reject TypeError]"
  by (simp add: dispatch_defs sample_parse_simps odd_data_def)

text \<open>
  C8. When the transport reports an error, the one outcome delivered is that very error
  object; when the transport succeeds and parsing the body throws, the one outcome
  delivered is the very exception the parser threw. Neither is wrapped.
\<close>

theorem native_errors_unwrapped:
  "(truthy err \<longrightarrow>
      events (completion (getDataFromWeb json_parse call u apiKey callback err body))
        = [error_delivery callback (Plain err)])
   \<and> (\<not> truthy err \<and> json_parse body = Inl e \<longrightarrow>
      events (completion (getDataFromWeb json_parse call u apiKey callback err body))
        = [error_delivery callback e])"
  by (cases callback)
    (simp_all add: completion_getDataFromWeb request_callback_def try_block_def throw_def
      settle_def invoke_Fun error_delivery_def Let_def)

theorem native_errors_unwrapped_witness:
  "truthy (Obj [(''code'', Str ''ECONNREFUSED'')])
   \<and> events (completion (getDataFromWeb sample_parse returns ''https://newsapi.org/v2/sources''
        (Str ''k1'') (Fun 0) (Obj [(''code'', Str ''ECONNREFUSED'')]) []))
      = [Callback [Plain (Obj [(''code'', Str ''ECONNREFUSED'')])]]
   \<and> \<not> truthy Null \<and> sample_parse ''<html>'' = Inl SyntaxError
   \<and> events (completion (getDataFromWeb sample_parse returns ''https://newsapi.org/v2/sources''
        (Str ''k1'') Undefined Null ''<html>'')) = [Reject SyntaxError]"
  using native_errors_unwrapped [of "Obj [(''code'', Str ''ECONNREFUSED'')]" sample_parse returns
      "''https://newsapi.org/v2/sources''" "Str ''k1''" "Fun 0" "[]" SyntaxError]
    native_errors_unwrapped [of Null sample_parse returns
      "''https://newsapi.org/v2/sources''" "Str ''k1''" Undefined "''<html>''" SyntaxError]
  by (simp add: sample_parse_simps error_delivery_def)

section \<open>The credential\<close>

text \<open>
  C9. A dispatched request carries the \<open>X-Api-Key\<close> header exactly when the credential
  handed to the dispatcher is truthy, and the header's value is then that credential. The
  legacy \<open>sources\<close> method dispatches without a credential and sends no such header;
  the legacy \<open>articles\<close> method and the three \<open>v2\<close> methods send the key the client
  was constructed with.
\<close>

theorem auth_header_iff_credential:
  "(headers (request (getDataFromWeb json_parse call u apiKey callback err body)) \<noteq> None)
     = truthy apiKey
   \<and> (truthy apiKey \<longrightarrow>
        headers (request (getDataFromWeb json_parse call u apiKey callback err body))
          = Some [(''X-Api-Key'', apiKey)])
   \<and> headers (request (sources json_parse call st self args err body)) = None
   \<and> (NewsAPI_constructor k st0 = Inr (st, self) \<longrightarrow>
        headers (request (articles json_parse call st self args err body)) = Some [(''X-Api-Key'', k)]
        \<and> headers (request (v2_topHeadlines json_parse call st self args err body))
            = Some [(''X-Api-Key'', k)]
        \<and> headers (request (v2_everything json_parse call st self args err body))
            = Some [(''X-Api-Key'', k)]
        \<and> headers (request (v2_sources json_parse call st self args err body))
            = Some [(''X-Api-Key'', k)])"
  by (auto simp: facade_defs request_getDataFromWeb NewsAPI_constructor_def Let_def
      split: if_splits)

theorem auth_header_iff_credential_witness:
  "NewsAPI_constructor (Str ''k1'') initial_module = Inr (sample_module, Client)
   \<and> headers (request (articles sample_parse returns sample_module Client [] Null ok_body))
       = Some [(''X-Api-Key'', Str ''k1'')]
   \<and> headers (request (sources sample_parse returns sample_module Client [] Null ok_body)) = None
   \<and> truthy (Str ''k1'')
   \<and> headers (request (getDataFromWeb sample_parse returns ''https://newsapi.org/v1/articles''
        (Str ''k1'') Undefined Null ok_body)) = Some [(''X-Api-Key'', Str ''k1'')]"
  using auth_header_iff_credential [of sample_parse returns "''https://newsapi.org/v1/articles''"
      "Str ''k1''" Undefined Null ok_body sample_module Client "[]" "Str ''k1''" initial_module]
  by (simp add: NewsAPI_constructor_def initial_module_def sample_module_def)

text \<open>
  C10. The credential is a variable of the module. Constructing a client with the key
  \<open>k1\<close> and then a second client with the key \<open>k2\<close> leaves \<open>k2\<close> in that
  variable, and every authenticated request then made through the first client carries
  \<open>k2\<close>.
\<close>

theorem credential_shared_by_all_clients:
  assumes "truthy k1" and "truthy k2"
  shows "\<exists>st1 c1 st2 c2.
      NewsAPI_constructor k1 st0 = Inr (st1, c1)
    \<and> NewsAPI_constructor k2 st1 = Inr (st2, c2)
    \<and> API_KEY st1 = k1 \<and> API_KEY st2 = k2
    \<and> headers (request (articles json_parse call st2 c1 args err body)) = Some [(''X-Api-Key'', k2)]
    \<and> headers (request (v2_topHeadlines json_parse call st2 c1 args err body))
        = Some [(''X-Api-Key'', k2)]
    \<and> headers (request (v2_everything json_parse call st2 c1 args err body))
        = Some [(''X-Api-Key'', k2)]
    \<and> headers (request (v2_sources json_parse call st2 c1 args err body))
        = Some [(''X-Api-Key'', k2)]"
  using assms
  by (simp add: facade_defs request_getDataFromWeb NewsAPI_constructor_def Let_def)

theorem credential_shared_by_all_clients_witness:
  "truthy (Str ''k1'') \<and> truthy (Str ''k2'') \<and> Str ''k1'' \<noteq> Str ''k2''
   \<and> NewsAPI_constructor (Str ''k1'') initial_module = Inr (\<lparr>API_KEY = Str ''k1''\<rparr>, Client)
   \<and> NewsAPI_constructor (Str ''k2'') \<lparr>API_KEY = Str ''k1''\<rparr> = Inr (\<lparr>API_KEY = Str ''k2''\<rparr>, Client)
   \<and> headers (request (articles sample_parse returns \<lparr>API_KEY = Str ''k2''\<rparr> Client [] Null ok_body))
       = Some [(''X-Api-Key'', Str ''k2'')]"
  using credential_shared_by_all_clients [of "Str ''k1''" "Str ''k2''" initial_module
      sample_parse returns "[]" Null ok_body]
  by (simp add: NewsAPI_constructor_def initial_module_def)

end
